theory Spec2Isabelle
  imports Main "HOL-Library.AList"
begin

section \<open>Values of a parsed configuration\<close>

text \<open>
  Both programs read a YAML document with \<^verbatim>\<open>yaml.safe_load\<close> and walk the resulting
  Python value with \<^verbatim>\<open>[]\<close>, \<^verbatim>\<open>.get\<close>, \<^verbatim>\<open>isinstance\<close> and truth tests. The value is
  modelled as the tree it is: null, booleans, integers, strings, lists and dictionaries.
  A dictionary is the list of its entries in order, each key once. Dictionary keys are
  values themselves; the programs only ever look up string keys. Strings are byte lists:
  a character beyond ASCII is written as its UTF-8 bytes. Floats, dates and binary data,
  which YAML can also produce, are outside the model.
\<close>

datatype yval =
    YNone
  | YBool bool
  | YInt int
  | YStr string
  | YList "yval list"
  | YDict "(yval \<times> yval) list"

datatype pyexn =
    KeyError string
  | TypeError
  | AttributeError
  | UnboundLocalError string

text \<open>Python's truth test (\<^verbatim>\<open>if x:\<close>, \<^verbatim>\<open>if not x:\<close>).\<close>

fun truthy :: "yval \<Rightarrow> bool" where
  "truthy YNone = False"
| "truthy (YBool b) = b"
| "truthy (YInt i) = (i \<noteq> 0)"
| "truthy (YStr s) = (s \<noteq> [])"
| "truthy (YList xs) = (xs \<noteq> [])"
| "truthy (YDict d) = (d \<noteq> [])"

text \<open>\<^verbatim>\<open>x[k]\<close> for a string key: only a dictionary holding the key answers.\<close>

fun subscript :: "yval \<Rightarrow> string \<Rightarrow> pyexn + yval" where
  "subscript (YDict d) k =
     (case map_of d (YStr k) of None \<Rightarrow> Inl (KeyError k) | Some v \<Rightarrow> Inr v)"
| "subscript YNone k = Inl TypeError"
| "subscript (YBool b) k = Inl TypeError"
| "subscript (YInt i) k = Inl TypeError"
| "subscript (YStr s) k = Inl TypeError"
| "subscript (YList xs) k = Inl TypeError"

text \<open>\<^verbatim>\<open>x.get(k, dflt)\<close>: only dictionaries have the method.\<close>

fun get_method :: "yval \<Rightarrow> string \<Rightarrow> yval \<Rightarrow> pyexn + yval" where
  "get_method (YDict d) k dflt =
     Inr (case map_of d (YStr k) of None \<Rightarrow> dflt | Some v \<Rightarrow> v)"
| "get_method YNone k dflt = Inl AttributeError"
| "get_method (YBool b) k dflt = Inl AttributeError"
| "get_method (YInt i) k dflt = Inl AttributeError"
| "get_method (YStr s) k dflt = Inl AttributeError"
| "get_method (YList xs) k dflt = Inl AttributeError"

text \<open>\<^verbatim>\<open>item.get(k)\<close> on a value already known to be a dictionary; the default is None.\<close>

definition item_get :: "(yval \<times> yval) list \<Rightarrow> string \<Rightarrow> yval" where
  "item_get d k = (case map_of d (YStr k) of None \<Rightarrow> YNone | Some v \<Rightarrow> v)"

subsection \<open>Text\<close>

definition digit_char :: "nat \<Rightarrow> char" where
  "digit_char d =
     (if d = 0 then CHR ''0'' else if d = 1 then CHR ''1'' else if d = 2 then CHR ''2''
      else if d = 3 then CHR ''3'' else if d = 4 then CHR ''4'' else if d = 5 then CHR ''5''
      else if d = 6 then CHR ''6'' else if d = 7 then CHR ''7'' else if d = 8 then CHR ''8''
      else CHR ''9'')"

fun str_of_nat :: "nat \<Rightarrow> string" where
  "str_of_nat n =
     (if n < 10 then [digit_char n] else str_of_nat (n div 10) @ [digit_char (n mod 10)])"

declare str_of_nat.simps [simp del]

definition str_of_int :: "int \<Rightarrow> string" where
  "str_of_int i = (if i < 0 then CHR ''-'' # str_of_nat (nat (- i)) else str_of_nat (nat i))"

text \<open>
  The characters of a string, as a \<^verbatim>\<open>for\<close> loop over it sees them: each lead byte with
  the UTF-8 continuation bytes that follow it.
\<close>

definition is_cont :: "char \<Rightarrow> bool" where
  "is_cont c = ((of_char c :: nat) div 64 = 2)"

function str_chars :: "string \<Rightarrow> string list" where
  "str_chars [] = []"
| "str_chars (c # cs) = (c # takeWhile is_cont cs) # str_chars (dropWhile is_cont cs)"
  by pat_completeness auto
termination
  by (relation "measure length") (auto simp: length_dropWhile_le le_imp_less_Suc)

section \<open>The environment of a run\<close>

text \<open>
  What the child process did: it exited with a return code, its standard output and its
  standard error, or \<^verbatim>\<open>subprocess.run\<close> raised, which leaves the exception's text.
\<close>

datatype completed =
    Exited int string string
  | SpawnFailed string

text \<open>
  Everything outside the two programs is a parameter: the file system and the engine
  (a world \<open>'w\<close> that an engine run may change), the path functions of \<^verbatim>\<open>os.path\<close>,
  the file picker, and the text Python prints for a list or a dictionary inside an
  f-string. Writes to the log file do not influence control flow and are left out.
\<close>

record 'w env =
  py_repr :: "yval \<Rightarrow> string"
  os_dirname :: "string \<Rightarrow> string"
  os_join :: "string list \<Rightarrow> string"
  os_abspath :: "'w \<Rightarrow> string \<Rightarrow> string"
  os_exists :: "'w \<Rightarrow> string \<Rightarrow> bool"
  subprocess_run :: "'w \<Rightarrow> yval list \<Rightarrow> completed \<times> 'w"
  askopenfilenames :: "'w \<Rightarrow> string list"

text \<open>The state threaded through a run: the world, and every argument vector handed
  to the engine so far, in order.\<close>

record 'w st =
  world :: 'w
  calls :: "yval list list"

text \<open>\<^verbatim>\<open>f"{v}"\<close>: the text of a value.\<close>

definition py_str :: "'w env \<Rightarrow> yval \<Rightarrow> string" where
  "py_str env v =
     (case v of
        YNone \<Rightarrow> ''None''
      | YBool b \<Rightarrow> (if b then ''True'' else ''False'')
      | YInt i \<Rightarrow> str_of_int i
      | YStr s \<Rightarrow> s
      | YList xs \<Rightarrow> py_repr env v
      | YDict d \<Rightarrow> py_repr env v)"

text \<open>\<^verbatim>\<open>for item in v\<close>: lists give their elements, strings their characters,
  dictionaries their keys; nothing else can be iterated.\<close>

definition py_iter :: "yval \<Rightarrow> pyexn + yval list" where
  "py_iter v =
     (case v of
        YList xs \<Rightarrow> Inr xs
      | YStr s \<Rightarrow> Inr (map YStr (str_chars s))
      | YDict d \<Rightarrow> Inr (map fst d)
      | YNone \<Rightarrow> Inl TypeError
      | YBool b \<Rightarrow> Inl TypeError
      | YInt i \<Rightarrow> Inl TypeError)"

section \<open>Process runner\<close>

text \<open>\<^verbatim>\<open>run_gs(cmd, log_file)\<close>, the same function in both programs.\<close>

definition run_gs :: "'w env \<Rightarrow> yval list \<Rightarrow> 'w st \<Rightarrow> (bool \<times> string) \<times> 'w st" where
  "run_gs env cmd s =
     (case subprocess_run env (world s) cmd of
        (Exited returncode out err, w') \<Rightarrow>
          (if returncode \<noteq> 0 then (False, err) else (True, ''''),
           \<lparr>world = w', calls = calls s @ [cmd]\<rparr>)
      | (SpawnFailed e, w') \<Rightarrow>
          ((False, e), \<lparr>world = w', calls = calls s @ [cmd]\<rparr>))"

section \<open>What a run ends in\<close>

text \<open>
  \<^verbatim>\<open>process()\<close> ends by showing the collected messages (\<^verbatim>\<open>showinfo\<close>, which joins
  the list with newlines), by showing an error dialog with a title and a text and
  returning, by returning silently when no configuration was loaded, or by an exception
  that nothing catches.
\<close>

datatype outcome =
    ShowInfo "string list"
  | ShowError string string
  | NoConfig
  | Raised pyexn

text \<open>An expression that may raise, followed by the rest of the function.\<close>

definition try_py ::
  "pyexn + 'a \<Rightarrow> 's \<Rightarrow> ('a \<Rightarrow> (outcome + 'b) \<times> 's) \<Rightarrow> (outcome + 'b) \<times> 's" where
  "try_py r s k = (case r of Inl e \<Rightarrow> (Inl (Raised e), s) | Inr v \<Rightarrow> k v)"

text \<open>The accented letters and the arrow of the message literals, in UTF-8.\<close>

definition a_tilde :: string where "a_tilde = [CHR 0xC3, CHR 0xA3]"
definition c_cedilla :: string where "c_cedilla = [CHR 0xC3, CHR 0xA7]"
definition arrow :: string where "arrow = [CHR 0xE2, CHR 0x86, CHR 0x92]"

section \<open>Pre-flight\<close>

text \<open>Lines 101 to 111 of both programs: where \<^verbatim>\<open>PDFA_def.ps\<close> is looked for.\<close>

definition pdfa_def_path :: "'w env \<Rightarrow> 'w \<Rightarrow> string \<Rightarrow> string" where
  "pdfa_def_path env w gs =
     os_abspath env w
       (os_join env [os_dirname env gs, ''..'', ''..'', ''lib'', ''PDFA_def.ps''])"

definition not_found_msg :: "string \<Rightarrow> string" where
  "not_found_msg pdfa_def =
     ''PDFA_def.ps n'' @ a_tilde @ ''o encontrado em:'' @ [CHR 0x0A] @ pdfa_def"

text \<open>
  \<^verbatim>\<open>os.path.dirname\<close> raises a TypeError on anything that is not a path; of the values
  a configuration holds, only strings are paths.
\<close>

definition as_path :: "yval \<Rightarrow> pyexn + string" where
  "as_path v = (case v of YStr p \<Rightarrow> Inr p | _ \<Rightarrow> Inl TypeError)"

section \<open>Command vectors common to both programs\<close>

definition merge_base :: "string \<Rightarrow> string \<Rightarrow> yval list" where
  "merge_base gs out =
     [YStr gs, YStr ''-dBATCH'', YStr ''-dNOPAUSE'', YStr ''-sDEVICE=pdfwrite'',
      YStr (''-sOutputFile='' @ out)]"

definition compress_cmd :: "string \<Rightarrow> string \<Rightarrow> string \<Rightarrow> yval \<Rightarrow> yval list" where
  "compress_cmd gs level out inp =
     [YStr gs, YStr ''-dBATCH'', YStr ''-dNOPAUSE'', YStr ''-sDEVICE=pdfwrite'',
      YStr (''-dPDFSETTINGS=/'' @ level), YStr (''-sOutputFile='' @ out), inp]"

definition pdfa_cmd :: "string \<Rightarrow> string \<Rightarrow> string \<Rightarrow> yval \<Rightarrow> yval list" where
  "pdfa_cmd gs out pdfa_def inp =
     [YStr gs, YStr ''-dPDFA=2'', YStr ''-sDEVICE=pdfwrite'', YStr ''-dNOPAUSE'',
      YStr ''-dBATCH'', YStr ''-dNOOUTERSAVE'', YStr ''-sColorConversionStrategy=RGB'',
      YStr ''-sProcessColorModel=DeviceRGB'', YStr (''-sOutputFile='' @ out),
      YStr ''-dPDFACompatibilityPolicy=1'', YStr pdfa_def, inp]"

section \<open>The program with English keys (pdf\_tool\_gui\_logs.py)\<close>

text \<open>
  Each stage takes the local variables it reads and returns the ones it leaves behind:
  \<^verbatim>\<open>messages\<close> and \<^verbatim>\<open>input_for_next_step\<close> (Python's None is \<open>YNone\<close>).
\<close>

definition merge_stage_en ::
  "'w env \<Rightarrow> yval \<Rightarrow> string \<Rightarrow> 'w st \<Rightarrow> (outcome + string list \<times> yval) \<times> 'w st" where
  "merge_stage_en env config gs s =
     try_py (get_method config ''merge'' (YDict [])) s (\<lambda>m.
     try_py (get_method m ''enabled'' (YBool False)) s (\<lambda>enabled.
     if truthy enabled then
       try_py (subscript config ''merge'') s (\<lambda>mg.
       try_py (get_method mg ''files'' (YList [])) s (\<lambda>configured.
       let merge_files =
             (if \<not> truthy configured
              then YList (map YStr (askopenfilenames env (world s)))
              else configured)
       in
       if \<not> truthy merge_files
       then (Inl (ShowError ''Erro'' ''Nenhum arquivo para merge.''), s)
       else
         try_py (subscript mg ''output'') s (\<lambda>output_merge.
         case merge_files of
           YList files \<Rightarrow>
             (let cmd = merge_base gs (py_str env output_merge) @ files in
              case run_gs env cmd s of
                ((ok, err), s') \<Rightarrow>
                  if \<not> ok then (Inl (ShowError ''Erro no Merge'' err), s')
                  else (Inr ([''Merge OK '' @ arrow @ '' '' @ py_str env output_merge],
                             output_merge), s'))
         | _ \<Rightarrow> (Inl (Raised TypeError), s))))
     else (Inr ([], YNone), s)))"

definition compress_stage_en ::
  "'w env \<Rightarrow> yval \<Rightarrow> string \<Rightarrow> string list \<times> yval \<Rightarrow> 'w st
     \<Rightarrow> (outcome + string list \<times> yval) \<times> 'w st" where
  "compress_stage_en env config gs loc s =
     (case loc of (messages, input_for_next_step) \<Rightarrow>
     try_py (get_method config ''compress'' (YDict [])) s (\<lambda>c.
     try_py (get_method c ''enabled'' (YBool False)) s (\<lambda>enabled.
     if truthy enabled then
       if input_for_next_step = YNone
       then (Inl (ShowError ''Erro''
                    (''Nenhum PDF para compress'' @ a_tilde @ ''o.'')), s)
       else
         try_py (subscript config ''compress'') s (\<lambda>cs.
         try_py (subscript cs ''output'') s (\<lambda>output_compress.
         try_py (subscript config ''settings'') s (\<lambda>settings.
         try_py (subscript settings ''compression'') s (\<lambda>level.
         let cmd = compress_cmd gs (py_str env level) (py_str env output_compress)
                     input_for_next_step
         in
         case run_gs env cmd s of
           ((ok, err), s') \<Rightarrow>
             if \<not> ok
             then (Inl (ShowError (''Erro na Compress'' @ a_tilde @ ''o'') err), s')
             else (Inr (messages @
                          [''Compress'' @ a_tilde @ ''o OK '' @ arrow @ '' '' @
                           py_str env output_compress],
                        output_compress), s')))))
     else (Inr (messages, input_for_next_step), s))))"

definition pdfa_stage_en ::
  "'w env \<Rightarrow> yval \<Rightarrow> string \<Rightarrow> string \<Rightarrow> string list \<times> yval \<Rightarrow> 'w st
     \<Rightarrow> (outcome + string list) \<times> 'w st" where
  "pdfa_stage_en env config gs pdfa_def loc s =
     (case loc of (messages, input_for_next_step) \<Rightarrow>
     try_py (get_method config ''pdfa'' (YDict [])) s (\<lambda>p.
     try_py (get_method p ''enabled'' (YBool False)) s (\<lambda>enabled.
     if truthy enabled then
       if input_for_next_step = YNone
       then (Inl (ShowError ''Erro'' ''Nenhum PDF para PDF/A.''), s)
       else
         try_py (subscript config ''pdfa'') s (\<lambda>ps.
         try_py (subscript ps ''output'') s (\<lambda>output_pdfa.
         try_py (get_method ps ''profile'' (YStr ''PDF/A-2b'')) s (\<lambda>profile.
         let cmd = pdfa_cmd gs (py_str env output_pdfa) pdfa_def input_for_next_step
         in
         case run_gs env cmd s of
           ((ok, err), s') \<Rightarrow>
             if \<not> ok then (Inl (ShowError ''Erro PDF/A'' err), s')
             else (Inr (messages @
                          [''PDF/A OK '' @ arrow @ '' '' @ py_str env output_pdfa]),
                   s'))))
     else (Inr messages, s))))"

definition stages_en ::
  "'w env \<Rightarrow> yval \<Rightarrow> string \<Rightarrow> string \<Rightarrow> 'w st \<Rightarrow> (outcome + string list) \<times> 'w st" where
  "stages_en env config gs pdfa_def s =
     (case merge_stage_en env config gs s of
        (Inl stop, s1) \<Rightarrow> (Inl stop, s1)
      | (Inr loc1, s1) \<Rightarrow>
          (case compress_stage_en env config gs loc1 s1 of
             (Inl stop, s2) \<Rightarrow> (Inl stop, s2)
           | (Inr loc2, s2) \<Rightarrow> pdfa_stage_en env config gs pdfa_def loc2 s2))"

definition finish :: "(outcome + string list) \<times> 'w st \<Rightarrow> outcome \<times> 'w st" where
  "finish r = (case r of (Inl stop, s) \<Rightarrow> (stop, s) | (Inr messages, s) \<Rightarrow> (ShowInfo messages, s))"

definition process_en :: "'w env \<Rightarrow> yval \<Rightarrow> 'w st \<Rightarrow> outcome \<times> 'w st" where
  "process_en env config s =
     (if \<not> truthy config then (NoConfig, s)
      else finish (
        try_py (subscript config ''paths'') s (\<lambda>paths.
        try_py (subscript paths ''ghostscript'') s (\<lambda>gsv.
        try_py (as_path gsv) s (\<lambda>gs.
        let pdfa_def = pdfa_def_path env (world s) gs in
        if \<not> os_exists env (world s) pdfa_def
        then (Inl (ShowError ''Erro'' (not_found_msg pdfa_def)), s)
        else stages_en env config gs pdfa_def s)))))"

section \<open>The program with localized keys (acionador\_ghostscript.py)\<close>

text \<open>
  Lines 118 to 136: the body of \<^verbatim>\<open>if config.get("juntar", {}).get("ativado", False)\<close>.
  It is the only place that binds \<^verbatim>\<open>merge_files\<close> and \<^verbatim>\<open>saida_juncao\<close>, so the
  result says for each whether it is bound (\<open>None\<close> is an unbound local, not Python's
  None).
\<close>

definition merge_prologue_pt ::
  "'w env \<Rightarrow> yval \<Rightarrow> 'w st \<Rightarrow> (outcome + yval option \<times> yval option) \<times> 'w st" where
  "merge_prologue_pt env config s =
     try_py (get_method config ''juntar'' (YDict [])) s (\<lambda>j.
     try_py (get_method j ''ativado'' (YBool False)) s (\<lambda>ativado.
     if truthy ativado then
       try_py (subscript config ''juntar'') s (\<lambda>jt.
       try_py (get_method jt ''arquivos'' (YList [])) s (\<lambda>configured.
       let merge_files =
             (if \<not> truthy configured
              then YList (map YStr (askopenfilenames env (world s)))
              else configured)
       in
       if \<not> truthy merge_files
       then (Inl (ShowError ''Erro'' ''Nenhum arquivo para juntar.''), s)
       else
         try_py (subscript jt ''saida'') s (\<lambda>saida_juncao.
         (Inr (Some merge_files, Some saida_juncao), s))))
     else (Inr (None, None), s)))"

text \<open>
  Lines 148 to 169, the part of the loop body before the engine is run: what one item
  does to \<^verbatim>\<open>cmd\<close>. \<open>None\<close> is the \<^verbatim>\<open>continue\<close> of a dictionary without a path.
\<close>

fun append_item :: "'w env \<Rightarrow> yval list \<Rightarrow> yval \<Rightarrow> yval list option" where
  "append_item env cmd (YStr p) = Some (cmd @ [YStr p])"
| "append_item env cmd (YDict d) =
     (let caminho = item_get d ''arquivo'' in
      if \<not> truthy caminho then None
      else
        let pagina_inicial = item_get d ''pagina_inicial'';
            pagina_final = item_get d ''pagina_final''
        in Some (cmd
                 @ (if truthy pagina_inicial
                    then [YStr (''-dFirstPage='' @ py_str env pagina_inicial)] else [])
                 @ (if truthy pagina_final
                    then [YStr (''-dLastPage='' @ py_str env pagina_final)] else [])
                 @ [caminho]))"
| "append_item env cmd YNone = Some cmd"
| "append_item env cmd (YBool b) = Some cmd"
| "append_item env cmd (YInt i) = Some cmd"
| "append_item env cmd (YList xs) = Some cmd"

definition juncao_ok :: "'w env \<Rightarrow> yval \<Rightarrow> string" where
  "juncao_ok env saida_juncao =
     ''Jun'' @ c_cedilla @ a_tilde @ ''o OK '' @ arrow @ '' '' @ py_str env saida_juncao"

text \<open>
  Lines 147 to 177: the loop. The engine run, the message and the assignment of
  \<^verbatim>\<open>input_for_next_step\<close> are inside it. The local variables are \<^verbatim>\<open>cmd\<close>,
  \<^verbatim>\<open>messages\<close> and \<^verbatim>\<open>input_for_next_step\<close> (\<open>None\<close> while unbound).
\<close>

fun merge_loop_pt ::
  "'w env \<Rightarrow> yval \<Rightarrow> yval list \<Rightarrow> yval list \<times> string list \<times> yval option \<Rightarrow> 'w st
     \<Rightarrow> (outcome + yval list \<times> string list \<times> yval option) \<times> 'w st" where
  "merge_loop_pt env saida_juncao [] loc s = (Inr loc, s)"
| "merge_loop_pt env saida_juncao (item # items) (cmd, messages, input_for_next_step) s =
     (case append_item env cmd item of
        None \<Rightarrow> merge_loop_pt env saida_juncao items (cmd, messages, input_for_next_step) s
      | Some cmd' \<Rightarrow>
          (case run_gs env cmd' s of
             ((ok, err), s') \<Rightarrow>
               if \<not> ok
               then (Inl (ShowError (''Erro na jun'' @ c_cedilla @ a_tilde @ ''o '') err), s')
               else merge_loop_pt env saida_juncao items
                      (cmd', messages @ [juncao_ok env saida_juncao], Some saida_juncao) s'))"

text \<open>
  Lines 138 to 177. The command is built and the loop entered whether or not the merge
  stage ran; reading an unbound local raises.
\<close>

definition merge_stage_pt ::
  "'w env \<Rightarrow> yval \<Rightarrow> string \<Rightarrow> 'w st \<Rightarrow> (outcome + string list \<times> yval option) \<times> 'w st" where
  "merge_stage_pt env config gs s =
     (case merge_prologue_pt env config s of
        (Inl stop, s0) \<Rightarrow> (Inl stop, s0)
      | (Inr (merge_files, saida_juncao), s0) \<Rightarrow>
          (case saida_juncao of
             None \<Rightarrow> (Inl (Raised (UnboundLocalError ''saida_juncao'')), s0)
           | Some saida \<Rightarrow>
               (case merge_files of
                  None \<Rightarrow> (Inl (Raised (UnboundLocalError ''merge_files'')), s0)
                | Some files \<Rightarrow>
                    try_py (py_iter files) s0 (\<lambda>items.
                    case merge_loop_pt env saida items
                           (merge_base gs (py_str env saida), [], None) s0 of
                      (Inl stop, s1) \<Rightarrow> (Inl stop, s1)
                    | (Inr (cmd, messages, input_for_next_step), s1) \<Rightarrow>
                        (Inr (messages, input_for_next_step), s1)))))"

definition compress_stage_pt ::
  "'w env \<Rightarrow> yval \<Rightarrow> string \<Rightarrow> string list \<times> yval option \<Rightarrow> 'w st
     \<Rightarrow> (outcome + string list \<times> yval option) \<times> 'w st" where
  "compress_stage_pt env config gs loc s =
     (case loc of (messages, input_for_next_step) \<Rightarrow>
     try_py (get_method config ''compactar'' (YDict [])) s (\<lambda>c.
     try_py (get_method c ''ativado'' (YBool False)) s (\<lambda>ativado.
     if truthy ativado then
       (case input_for_next_step of
          None \<Rightarrow> (Inl (Raised (UnboundLocalError ''input_for_next_step'')), s)
        | Some inp \<Rightarrow>
            if inp = YNone
            then (Inl (ShowError ''Erro''
                         (''Nenhum PDF para compacta'' @ c_cedilla @ a_tilde @ ''o.'')), s)
            else
              try_py (subscript config ''compactar'') s (\<lambda>cs.
              try_py (subscript cs ''saida'') s (\<lambda>output_compress.
              try_py (subscript config ''parametros'') s (\<lambda>parametros.
              try_py (subscript parametros ''compactacao'') s (\<lambda>level.
              let cmd = compress_cmd gs (py_str env level) (py_str env output_compress) inp
              in
              case run_gs env cmd s of
                ((ok, err), s') \<Rightarrow>
                  if \<not> ok
                  then (Inl (ShowError (''Erro na Compacta'' @ c_cedilla @ a_tilde @ ''o'')
                               err), s')
                  else (Inr (messages @
                               [''Compress'' @ a_tilde @ ''o OK '' @ arrow @ '' '' @
                                py_str env output_compress],
                             Some output_compress), s'))))))
     else (Inr (messages, input_for_next_step), s))))"

definition pdfa_stage_pt ::
  "'w env \<Rightarrow> yval \<Rightarrow> string \<Rightarrow> string \<Rightarrow> string list \<times> yval option \<Rightarrow> 'w st
     \<Rightarrow> (outcome + string list) \<times> 'w st" where
  "pdfa_stage_pt env config gs pdfa_def loc s =
     (case loc of (messages, input_for_next_step) \<Rightarrow>
     try_py (get_method config ''pdfa'' (YDict [])) s (\<lambda>p.
     try_py (get_method p ''ativado'' (YBool False)) s (\<lambda>ativado.
     if truthy ativado then
       (case input_for_next_step of
          None \<Rightarrow> (Inl (Raised (UnboundLocalError ''input_for_next_step'')), s)
        | Some inp \<Rightarrow>
            if inp = YNone
            then (Inl (ShowError ''Erro'' ''Nenhum PDF para PDF/A.''), s)
            else
              try_py (subscript config ''pdfa'') s (\<lambda>ps.
              try_py (subscript ps ''saida'') s (\<lambda>output_pdfa.
              try_py (get_method ps ''perfil'' (YStr ''PDF/A-2b'')) s (\<lambda>profile.
              let cmd = pdfa_cmd gs (py_str env output_pdfa) pdfa_def inp
              in
              case run_gs env cmd s of
                ((ok, err), s') \<Rightarrow>
                  if \<not> ok then (Inl (ShowError ''Erro PDF/A'' err), s')
                  else (Inr (messages @
                               [''PDF/A OK '' @ arrow @ '' '' @ py_str env output_pdfa]),
                        s')))))
     else (Inr messages, s))))"

definition stages_pt ::
  "'w env \<Rightarrow> yval \<Rightarrow> string \<Rightarrow> string \<Rightarrow> 'w st \<Rightarrow> (outcome + string list) \<times> 'w st" where
  "stages_pt env config gs pdfa_def s =
     (case merge_stage_pt env config gs s of
        (Inl stop, s1) \<Rightarrow> (Inl stop, s1)
      | (Inr loc1, s1) \<Rightarrow>
          (case compress_stage_pt env config gs loc1 s1 of
             (Inl stop, s2) \<Rightarrow> (Inl stop, s2)
           | (Inr loc2, s2) \<Rightarrow> pdfa_stage_pt env config gs pdfa_def loc2 s2))"

definition process_pt :: "'w env \<Rightarrow> yval \<Rightarrow> 'w st \<Rightarrow> outcome \<times> 'w st" where
  "process_pt env config s =
     (if \<not> truthy config then (NoConfig, s)
      else finish (
        try_py (subscript config ''caminhos'') s (\<lambda>caminhos.
        try_py (subscript caminhos ''ghostscript'') s (\<lambda>gsv.
        try_py (as_path gsv) s (\<lambda>gs.
        let pdfa_def = pdfa_def_path env (world s) gs in
        if \<not> os_exists env (world s) pdfa_def
        then (Inl (ShowError ''Erro'' (not_found_msg pdfa_def)), s)
        else stages_pt env config gs pdfa_def s)))))"

section \<open>Notions the properties are stated with\<close>

text \<open>
  The command the loop of lines 147 to 169 has built when it ends: the loop body without
  the engine run.
\<close>

fun build_merge_cmd :: "'w env \<Rightarrow> yval list \<Rightarrow> yval list \<Rightarrow> yval list" where
  "build_merge_cmd env cmd [] = cmd"
| "build_merge_cmd env cmd (item # items) =
     (case append_item env cmd item of
        None \<Rightarrow> build_merge_cmd env cmd items
      | Some cmd' \<Rightarrow> build_merge_cmd env cmd' items)"

text \<open>The items the loop passes over with \<^verbatim>\<open>continue\<close>: dictionaries without a path.\<close>

definition skipped :: "yval \<Rightarrow> bool" where
  "skipped item = (case item of YDict d \<Rightarrow> \<not> truthy (item_get d ''arquivo'') | _ \<Rightarrow> False)"

text \<open>
  A configuration in which the profile entry of the \<^verbatim>\<open>pdfa\<close> section (key
  \<^verbatim>\<open>profile\<close> or \<^verbatim>\<open>perfil\<close>) is set to a given value and nothing else is touched.
\<close>

definition with_profile :: "string \<Rightarrow> yval \<Rightarrow> yval \<Rightarrow> yval" where
  "with_profile key profile config =
     (case config of
        YDict d \<Rightarrow>
          (case map_of d (YStr ''pdfa'') of
             Some (YDict p) \<Rightarrow>
               YDict (AList.update (YStr ''pdfa'')
                        (YDict (AList.update (YStr key) profile p)) d)
           | _ \<Rightarrow> config)
      | _ \<Rightarrow> config)"

subsection \<open>One configuration, two key-naming schemes\<close>

text \<open>
  The specification's \<^verbatim>\<open>PipelineConfig\<close>, restricted to what both schemes can write:
  the merge inputs are bare paths, since only the localized program reads structured
  items.
\<close>

record pipeline_config =
  enginePath :: string
  merge_enabled :: bool
  merge_inputs :: "string list"
  merge_output :: string
  compress_enabled :: bool
  compress_output :: string
  compressionLevel :: string
  archive_enabled :: bool
  archive_output :: string
  archiveProfile :: string

definition config_en :: "pipeline_config \<Rightarrow> yval" where
  "config_en c =
     YDict [
       (YStr ''paths'', YDict [(YStr ''ghostscript'', YStr (enginePath c))]),
       (YStr ''merge'', YDict [
          (YStr ''enabled'', YBool (merge_enabled c)),
          (YStr ''files'', YList (map YStr (merge_inputs c))),
          (YStr ''output'', YStr (merge_output c))]),
       (YStr ''compress'', YDict [
          (YStr ''enabled'', YBool (compress_enabled c)),
          (YStr ''output'', YStr (compress_output c))]),
       (YStr ''settings'', YDict [(YStr ''compression'', YStr (compressionLevel c))]),
       (YStr ''pdfa'', YDict [
          (YStr ''enabled'', YBool (archive_enabled c)),
          (YStr ''output'', YStr (archive_output c)),
          (YStr ''profile'', YStr (archiveProfile c))])]"

definition config_pt :: "pipeline_config \<Rightarrow> yval" where
  "config_pt c =
     YDict [
       (YStr ''caminhos'', YDict [(YStr ''ghostscript'', YStr (enginePath c))]),
       (YStr ''juntar'', YDict [
          (YStr ''ativado'', YBool (merge_enabled c)),
          (YStr ''arquivos'', YList (map YStr (merge_inputs c))),
          (YStr ''saida'', YStr (merge_output c))]),
       (YStr ''compactar'', YDict [
          (YStr ''ativado'', YBool (compress_enabled c)),
          (YStr ''saida'', YStr (compress_output c))]),
       (YStr ''parametros'', YDict [(YStr ''compactacao'', YStr (compressionLevel c))]),
       (YStr ''pdfa'', YDict [
          (YStr ''ativado'', YBool (archive_enabled c)),
          (YStr ''saida'', YStr (archive_output c)),
          (YStr ''perfil'', YStr (archiveProfile c))])]"

text \<open>
  The wording of the English program put into the wording of the localized one: the
  merge message, the titles of the two dialogs that differ, and the two texts that differ.
\<close>

definition localize_msg :: "string \<Rightarrow> string" where
  "localize_msg m =
     (if take 9 m = ''Merge OK ''
      then ''Jun'' @ c_cedilla @ a_tilde @ ''o OK '' @ drop 9 m
      else m)"

definition localize :: "outcome \<Rightarrow> outcome" where
  "localize out =
     (case out of
        ShowInfo messages \<Rightarrow> ShowInfo (map localize_msg messages)
      | ShowError title text \<Rightarrow>
          (if title = ''Erro no Merge''
           then ShowError (''Erro na jun'' @ c_cedilla @ a_tilde @ ''o '') text
           else if title = ''Erro na Compress'' @ a_tilde @ ''o''
           then ShowError (''Erro na Compacta'' @ c_cedilla @ a_tilde @ ''o'') text
           else if title = ''Erro'' \<and> text = ''Nenhum arquivo para merge.''
           then ShowError ''Erro'' ''Nenhum arquivo para juntar.''
           else if title = ''Erro'' \<and> text = ''Nenhum PDF para compress'' @ a_tilde @ ''o.''
           then ShowError ''Erro''
                  (''Nenhum PDF para compacta'' @ c_cedilla @ a_tilde @ ''o.'')
           else out)
      | NoConfig \<Rightarrow> NoConfig
      | Raised e \<Rightarrow> Raised e)"

subsection \<open>A sample environment and sample configurations\<close>

text \<open>
  An environment to run the programs in: the world is the list of files that exist,
  paths are joined with slashes, the engine answers by a given function of its argument
  vector and leaves the world alone, and the file picker returns nothing.
\<close>

definition sample_dirname :: "string \<Rightarrow> string" where
  "sample_dirname p = rev (drop 1 (dropWhile (\<lambda>c. c \<noteq> CHR ''/'') (rev p)))"

definition sample_join :: "string list \<Rightarrow> string" where
  "sample_join ps = (case ps of [] \<Rightarrow> [] | p # qs \<Rightarrow> foldl (\<lambda>a b. a @ ''/'' @ b) p qs)"

definition sample_env :: "(yval list \<Rightarrow> completed) \<Rightarrow> (string list) env" where
  "sample_env engine =
     \<lparr>py_repr = (\<lambda>v. ''[...]''),
      os_dirname = sample_dirname,
      os_join = sample_join,
      os_abspath = (\<lambda>w p. p),
      os_exists = (\<lambda>w p. p \<in> set w),
      subprocess_run = (\<lambda>w cmd. (engine cmd, w)),
      askopenfilenames = (\<lambda>w. [])\<rparr>"

definition engine_ok :: "yval list \<Rightarrow> completed" where
  "engine_ok cmd = Exited 0 [] []"

definition engine_disk_full :: "yval list \<Rightarrow> completed" where
  "engine_disk_full cmd = Exited 1 [] ''disk full''"

definition sample_gs :: string where
  "sample_gs = ''/opt/gs/bin/gs''"

definition installed :: "(string list) st" where
  "installed = \<lparr>world = [''/opt/gs/bin/../../lib/PDFA_def.ps''], calls = []\<rparr>"

definition not_installed :: "(string list) st" where
  "not_installed = \<lparr>world = [], calls = []\<rparr>"

text \<open>The end-to-end scenario with a page range, in localized keys.\<close>

definition scenario_items :: "yval list" where
  "scenario_items =
     [YDict [(YStr ''arquivo'', YStr ''a.pdf''),
             (YStr ''pagina_inicial'', YInt 2),
             (YStr ''pagina_final'', YInt 4)],
      YStr ''b.pdf'']"

definition scenario_pt :: yval where
  "scenario_pt =
     YDict [
       (YStr ''caminhos'', YDict [(YStr ''ghostscript'', YStr sample_gs)]),
       (YStr ''juntar'', YDict [
          (YStr ''ativado'', YBool True),
          (YStr ''arquivos'', YList scenario_items),
          (YStr ''saida'', YStr ''merged.pdf'')]),
       (YStr ''compactar'', YDict [(YStr ''ativado'', YBool False)]),
       (YStr ''pdfa'', YDict [(YStr ''ativado'', YBool False)])]"

text \<open>A merge list whose only item is a dictionary without a path.\<close>

definition pathless_pt :: yval where
  "pathless_pt =
     YDict [
       (YStr ''caminhos'', YDict [(YStr ''ghostscript'', YStr sample_gs)]),
       (YStr ''juntar'', YDict [
          (YStr ''ativado'', YBool True),
          (YStr ''arquivos'', YList [YDict [(YStr ''pagina_inicial'', YInt 2)]]),
          (YStr ''saida'', YStr ''merged.pdf'')]),
       (YStr ''compactar'', YDict [(YStr ''ativado'', YBool False)]),
       (YStr ''pdfa'', YDict [(YStr ''ativado'', YBool False)])]"

text \<open>Sample values of the common model: every stage off, only compression on, every
  stage on with one file to merge.\<close>

definition all_disabled :: pipeline_config where
  "all_disabled =
     \<lparr>enginePath = sample_gs,
      merge_enabled = False, merge_inputs = [], merge_output = ''merged.pdf'',
      compress_enabled = False, compress_output = ''small.pdf'', compressionLevel = ''ebook'',
      archive_enabled = False, archive_output = ''final.pdf'', archiveProfile = ''PDF/A-2b''\<rparr>"

definition compress_only :: pipeline_config where
  "compress_only = all_disabled\<lparr>compress_enabled := True\<rparr>"

definition one_file :: pipeline_config where
  "one_file =
     \<lparr>enginePath = sample_gs,
      merge_enabled = True, merge_inputs = [''a.pdf''], merge_output = ''merged.pdf'',
      compress_enabled = True, compress_output = ''small.pdf'', compressionLevel = ''ebook'',
      archive_enabled = True, archive_output = ''final.pdf'', archiveProfile = ''PDF/A-2b''\<rparr>"

definition merge_off :: pipeline_config where
  "merge_off = one_file\<lparr>merge_enabled := False\<rparr>"

section \<open>Auxiliary facts\<close>

lemma try_py_simps [simp]:
  "try_py (Inl e) s k = (Inl (Raised e), s)"
  "try_py (Inr v) s k = k v"
  by (simp_all add: try_py_def)

lemma append_item_appends:
  "append_item env cmd item = map_option (\<lambda>seg. cmd @ seg) (append_item env [] item)"
  by (cases item) (simp_all add: Let_def)

lemma build_merge_cmd_appends:
  "build_merge_cmd env cmd items = cmd @ build_merge_cmd env [] items"
proof (induction items arbitrary: cmd)
  case Nil
  show ?case by simp
next
  case (Cons item items)
  show ?case
  proof (cases "append_item env [] item")
    case None
    then have "append_item env cmd item = None"
      using append_item_appends [of env cmd item] by simp
    with None Cons.IH [of cmd] show ?thesis by simp
  next
    case (Some seg)
    then have "append_item env cmd item = Some (cmd @ seg)"
      using append_item_appends [of env cmd item] by simp
    with Some Cons.IH [of "cmd @ seg"] Cons.IH [of seg] show ?thesis by simp
  qed
qed

lemma build_merge_cmd_append:
  "build_merge_cmd env cmd (xs @ ys) = build_merge_cmd env (build_merge_cmd env cmd xs) ys"
  by (induction xs arbitrary: cmd) (simp_all split: option.splits)

text \<open>One turn of the loop that is followed by a normal end of the loop: the item was
  passed over, or the engine ran on the extended command and succeeded.\<close>

lemma merge_loop_pt_step:
  assumes "merge_loop_pt env saida (item # items) (cmd0, m0, i0) s = (Inr r, s')"
  shows "(append_item env cmd0 item = None \<and>
            merge_loop_pt env saida items (cmd0, m0, i0) s = (Inr r, s'))
       \<or> (\<exists>cmd1. append_item env cmd0 item = Some cmd1 \<and>
            fst (fst (run_gs env cmd1 s)) \<and>
            merge_loop_pt env saida items
              (cmd1, m0 @ [juncao_ok env saida], Some saida) (snd (run_gs env cmd1 s))
              = (Inr r, s'))"
proof (cases "append_item env cmd0 item")
  case None
  with assms show ?thesis by simp
next
  case (Some cmd1)
  show ?thesis
  proof (cases "run_gs env cmd1 s")
    case (Pair okerr s1)
    show ?thesis
    proof (cases okerr)
      case (Pair ok err)
      with assms Some \<open>run_gs env cmd1 s = (okerr, s1)\<close> show ?thesis
        by (cases ok) simp_all
    qed
  qed
qed

lemma merge_loop_pt_cmd:
  "merge_loop_pt env saida items (cmd0, m0, i0) s = (Inr (cmd, m, i), s')
   \<Longrightarrow> cmd = build_merge_cmd env cmd0 items"
proof (induction items arbitrary: cmd0 m0 i0 s)
  case Nil
  then show ?case by simp
next
  case (Cons item items)
  from merge_loop_pt_step [OF Cons.prems] show ?case
  proof (elim disjE conjE exE)
    assume "append_item env cmd0 item = None"
      and "merge_loop_pt env saida items (cmd0, m0, i0) s = (Inr (cmd, m, i), s')"
    then show ?thesis using Cons.IH by simp
  next
    fix cmd1
    assume "append_item env cmd0 item = Some cmd1"
      and "merge_loop_pt env saida items
              (cmd1, m0 @ [juncao_ok env saida], Some saida) (snd (run_gs env cmd1 s))
              = (Inr (cmd, m, i), s')"
    then show ?thesis using Cons.IH by simp
  qed
qed

section \<open>Page ranges in the merge command\<close>

text \<open>
  C1. In the localized program, whenever the merge loop ends normally, the command it has
  built consists of what the items before a structured item contributed, then that item's
  \<^verbatim>\<open>-dFirstPage\<close> flag (if it has a first page), then its \<^verbatim>\<open>-dLastPage\<close> flag (if it
  has a last page), then the item's path, then what the later items contribute on their
  own. The flags stand immediately before the path of their item, and neither the part
  before nor the part after depends on the item: nothing of its page range reaches
  another item.
\<close>

theorem merge_page_flags_adjacent:
  assumes "merge_loop_pt env saida (pre @ YDict d # post) (cmd0, m0, i0) s
             = (Inr (cmd, m, i), s')"
      and "truthy (item_get d ''arquivo'')"
  shows "cmd = build_merge_cmd env cmd0 pre
            @ (if truthy (item_get d ''pagina_inicial'')
               then [YStr (''-dFirstPage='' @ py_str env (item_get d ''pagina_inicial''))]
               else [])
            @ (if truthy (item_get d ''pagina_final'')
               then [YStr (''-dLastPage='' @ py_str env (item_get d ''pagina_final''))]
               else [])
            @ [item_get d ''arquivo'']
            @ build_merge_cmd env [] post"
proof -
  let ?own = "(if truthy (item_get d ''pagina_inicial'')
               then [YStr (''-dFirstPage='' @ py_str env (item_get d ''pagina_inicial''))]
               else [])
            @ (if truthy (item_get d ''pagina_final'')
               then [YStr (''-dLastPage='' @ py_str env (item_get d ''pagina_final''))]
               else [])
            @ [item_get d ''arquivo'']"
  have "cmd = build_merge_cmd env cmd0 (pre @ YDict d # post)"
    using assms(1) by (rule merge_loop_pt_cmd)
  also have "\<dots> = build_merge_cmd env (build_merge_cmd env cmd0 pre) (YDict d # post)"
    by (rule build_merge_cmd_append)
  also have "\<dots> = build_merge_cmd env (build_merge_cmd env cmd0 pre @ ?own) post"
    using assms(2) by (simp add: Let_def)
  also have "\<dots> = (build_merge_cmd env cmd0 pre @ ?own) @ build_merge_cmd env [] post"
    by (rule build_merge_cmd_appends)
  finally show ?thesis by simp
qed

theorem merge_page_flags_adjacent_witness:
  "merge_loop_pt (sample_env engine_ok) (YStr ''merged.pdf'')
     ([] @ YDict [(YStr ''arquivo'', YStr ''a.pdf''),
                  (YStr ''pagina_inicial'', YInt 2),
                  (YStr ''pagina_final'', YInt 4)] # [YStr ''b.pdf''])
     (merge_base sample_gs ''merged.pdf'', [], None) installed
   = (Inr (merge_base sample_gs ''merged.pdf'' @
             [YStr ''-dFirstPage=2'', YStr ''-dLastPage=4'', YStr ''a.pdf'', YStr ''b.pdf''],
           [juncao_ok (sample_env engine_ok) (YStr ''merged.pdf''),
            juncao_ok (sample_env engine_ok) (YStr ''merged.pdf'')],
           Some (YStr ''merged.pdf'')),
      snd (merge_loop_pt (sample_env engine_ok) (YStr ''merged.pdf'') scenario_items
             (merge_base sample_gs ''merged.pdf'', [], None) installed))
   \<and> truthy (item_get [(YStr ''arquivo'', YStr ''a.pdf''),
                        (YStr ''pagina_inicial'', YInt 2),
                        (YStr ''pagina_final'', YInt 4)] ''arquivo'')
   \<and> merge_base sample_gs ''merged.pdf'' @
        [YStr ''-dFirstPage=2'', YStr ''-dLastPage=4'', YStr ''a.pdf'', YStr ''b.pdf'']
      = build_merge_cmd (sample_env engine_ok) (merge_base sample_gs ''merged.pdf'') []
          @ [YStr (''-dFirstPage='' @ py_str (sample_env engine_ok) (YInt 2))]
          @ [YStr (''-dLastPage='' @ py_str (sample_env engine_ok) (YInt 4))]
          @ [YStr ''a.pdf'']
          @ build_merge_cmd (sample_env engine_ok) [] [YStr ''b.pdf'']"
proof -
  let ?d = "[(YStr ''arquivo'', YStr ''a.pdf''),
             (YStr ''pagina_inicial'', YInt 2),
             (YStr ''pagina_final'', YInt 4)]"
  have run: "merge_loop_pt (sample_env engine_ok) (YStr ''merged.pdf'')
     ([] @ YDict ?d # [YStr ''b.pdf''])
     (merge_base sample_gs ''merged.pdf'', [], None) installed
   = (Inr (merge_base sample_gs ''merged.pdf'' @
             [YStr ''-dFirstPage=2'', YStr ''-dLastPage=4'', YStr ''a.pdf'', YStr ''b.pdf''],
           [juncao_ok (sample_env engine_ok) (YStr ''merged.pdf''),
            juncao_ok (sample_env engine_ok) (YStr ''merged.pdf'')],
           Some (YStr ''merged.pdf'')),
      snd (merge_loop_pt (sample_env engine_ok) (YStr ''merged.pdf'') scenario_items
             (merge_base sample_gs ''merged.pdf'', [], None) installed))"
    by code_simp
  have path: "truthy (item_get ?d ''arquivo'')"
    by code_simp
  have first: "truthy (item_get ?d ''pagina_inicial'')"
           "item_get ?d ''pagina_inicial'' = YInt 2"
    by code_simp+
  have last: "truthy (item_get ?d ''pagina_final'')"
          "item_get ?d ''pagina_final'' = YInt 4"
    by code_simp+
  have arq: "item_get ?d ''arquivo'' = YStr ''a.pdf''"
    by code_simp
  from merge_page_flags_adjacent [OF run path]
  have built: "merge_base sample_gs ''merged.pdf'' @
        [YStr ''-dFirstPage=2'', YStr ''-dLastPage=4'', YStr ''a.pdf'', YStr ''b.pdf'']
      = build_merge_cmd (sample_env engine_ok) (merge_base sample_gs ''merged.pdf'') []
          @ [YStr (''-dFirstPage='' @ py_str (sample_env engine_ok) (YInt 2))]
          @ [YStr (''-dLastPage='' @ py_str (sample_env engine_ok) (YInt 4))]
          @ [YStr ''a.pdf'']
          @ build_merge_cmd (sample_env engine_ok) [] [YStr ''b.pdf'']"
    by (simp add: arq first(2) last(2))
  from run path built show ?thesis
    by (intro conjI)
qed

section \<open>How an engine run is classified\<close>

text \<open>
  C9. For every argument vector, \<^verbatim>\<open>run_gs\<close> reports success exactly when the child
  process exited with return code 0; on any other return code it reports failure with
  the captured standard error as the detail; when running the process raised, it reports
  failure with the exception's text as the detail.
\<close>

theorem run_gs_classification:
  assumes "subprocess_run env (world s) cmd = (r, w')"
  shows "(fst (fst (run_gs env cmd s)) \<longleftrightarrow> (\<exists>out err. r = Exited 0 out err))
       \<and> (\<forall>rc out err. r = Exited rc out err \<and> rc \<noteq> 0
             \<longrightarrow> fst (run_gs env cmd s) = (False, err))
       \<and> (\<forall>e. r = SpawnFailed e \<longrightarrow> fst (run_gs env cmd s) = (False, e))"
  using assms by (cases r) (auto simp: run_gs_def)

theorem run_gs_classification_witness:
  "subprocess_run (sample_env engine_disk_full) (world installed) [YStr sample_gs]
     = (Exited 1 [] ''disk full'', world installed)
   \<and> \<not> fst (fst (run_gs (sample_env engine_disk_full) [YStr sample_gs] installed))
   \<and> fst (run_gs (sample_env engine_disk_full) [YStr sample_gs] installed)
       = (False, ''disk full'')"
proof -
  have h: "subprocess_run (sample_env engine_disk_full) (world installed) [YStr sample_gs]
             = (Exited 1 [] ''disk full'', world installed)"
    by (simp add: sample_env_def engine_disk_full_def)
  from run_gs_classification [OF h] h show ?thesis by simp
qed

section \<open>A missing definition file\<close>

lemma subscript_truthy: "subscript config k = Inr v \<Longrightarrow> truthy config"
  by (cases config) (auto split: option.splits)

text \<open>
  C7. In both programs, for every configuration that names an engine path: if
  \<^verbatim>\<open>PDFA_def.ps\<close> does not exist at the path resolved from it (the engine's directory,
  two levels up, then \<^verbatim>\<open>lib\<close>), the run ends with the error dialog of the pre-flight
  check and leaves the state as it was: no stage has run and the engine has not been
  invoked.
\<close>

theorem preflight_missing_def_file:
  "(subscript config ''paths'' = Inr paths \<and>
    subscript paths ''ghostscript'' = Inr (YStr gs) \<and>
    \<not> os_exists env (world s) (pdfa_def_path env (world s) gs)
    \<longrightarrow> process_en env config s
          = (ShowError ''Erro'' (not_found_msg (pdfa_def_path env (world s) gs)), s))
 \<and> (subscript config ''caminhos'' = Inr paths \<and>
    subscript paths ''ghostscript'' = Inr (YStr gs) \<and>
    \<not> os_exists env (world s) (pdfa_def_path env (world s) gs)
    \<longrightarrow> process_pt env config s
          = (ShowError ''Erro'' (not_found_msg (pdfa_def_path env (world s) gs)), s))"
  by (auto simp: process_en_def process_pt_def as_path_def finish_def Let_def
           dest: subscript_truthy)

theorem preflight_missing_def_file_witness:
  "subscript (config_en one_file) ''paths'' = Inr (YDict [(YStr ''ghostscript'', YStr sample_gs)])
   \<and> subscript (config_pt one_file) ''caminhos''
       = Inr (YDict [(YStr ''ghostscript'', YStr sample_gs)])
   \<and> subscript (YDict [(YStr ''ghostscript'', YStr sample_gs)]) ''ghostscript''
       = Inr (YStr sample_gs)
   \<and> \<not> os_exists (sample_env engine_ok) (world not_installed)
         (pdfa_def_path (sample_env engine_ok) (world not_installed) sample_gs)
   \<and> process_en (sample_env engine_ok) (config_en one_file) not_installed
       = (ShowError ''Erro''
            (not_found_msg (pdfa_def_path (sample_env engine_ok) (world not_installed) sample_gs)),
          not_installed)
   \<and> process_pt (sample_env engine_ok) (config_pt one_file) not_installed
       = (ShowError ''Erro''
            (not_found_msg (pdfa_def_path (sample_env engine_ok) (world not_installed) sample_gs)),
          not_installed)"
proof -
  let ?paths = "YDict [(YStr ''ghostscript'', YStr sample_gs)]"
  have en: "subscript (config_en one_file) ''paths'' = Inr ?paths"
    by (simp add: config_en_def one_file_def)
  have pt: "subscript (config_pt one_file) ''caminhos'' = Inr ?paths"
    by (simp add: config_pt_def one_file_def)
  have gs: "subscript ?paths ''ghostscript'' = Inr (YStr sample_gs)"
    by simp
  have missing: "\<not> os_exists (sample_env engine_ok) (world not_installed)
         (pdfa_def_path (sample_env engine_ok) (world not_installed) sample_gs)"
    by (simp add: sample_env_def not_installed_def)
  from preflight_missing_def_file
         [of "config_en one_file" ?paths sample_gs "sample_env engine_ok" not_installed]
       preflight_missing_def_file
         [of "config_pt one_file" ?paths sample_gs "sample_env engine_ok" not_installed]
       en pt gs missing
  show ?thesis by blast
qed

section \<open>A disabled merge stage in the localized program\<close>

text \<open>
  C5. In the localized program, a run that has passed the pre-flight check and finds the
  merge stage disabled leaves \<^verbatim>\<open>merge_files\<close> and \<^verbatim>\<open>saida_juncao\<close> unbound, goes on
  to build the merge command all the same, and ends there with an unbound-variable
  error: no later stage is reached and nothing is reported.
\<close>

theorem merge_disabled_unbound_pt:
  assumes "subscript config ''caminhos'' = Inr caminhos"
      and "subscript caminhos ''ghostscript'' = Inr (YStr gs)"
      and "os_exists env (world s) (pdfa_def_path env (world s) gs)"
      and "get_method config ''juntar'' (YDict []) = Inr juntar"
      and "get_method juntar ''ativado'' (YBool False) = Inr ativado"
      and "\<not> truthy ativado"
  shows "merge_prologue_pt env config s = (Inr (None, None), s)
       \<and> process_pt env config s = (Raised (UnboundLocalError ''saida_juncao''), s)"
proof -
  have cfg: "truthy config" using assms(1) by (rule subscript_truthy)
  have pro: "merge_prologue_pt env config s = (Inr (None, None), s)"
    using assms(4-6) by (simp add: merge_prologue_pt_def)
  then have "merge_stage_pt env config gs s
               = (Inl (Raised (UnboundLocalError ''saida_juncao'')), s)"
    by (simp add: merge_stage_pt_def)
  then have "stages_pt env config gs (pdfa_def_path env (world s) gs) s
               = (Inl (Raised (UnboundLocalError ''saida_juncao'')), s)"
    by (simp add: stages_pt_def)
  with cfg assms(1-3) have "process_pt env config s
               = (Raised (UnboundLocalError ''saida_juncao''), s)"
    by (simp add: process_pt_def as_path_def finish_def Let_def)
  with pro show ?thesis by simp
qed

theorem merge_disabled_unbound_pt_witness:
  "subscript (config_pt merge_off) ''caminhos''
     = Inr (YDict [(YStr ''ghostscript'', YStr sample_gs)])
   \<and> os_exists (sample_env engine_ok) (world installed)
        (pdfa_def_path (sample_env engine_ok) (world installed) sample_gs)
   \<and> get_method (config_pt merge_off) ''juntar'' (YDict [])
       = Inr (YDict [(YStr ''ativado'', YBool False),
                     (YStr ''arquivos'', YList [YStr ''a.pdf'']),
                     (YStr ''saida'', YStr ''merged.pdf'')])
   \<and> \<not> truthy (YBool False)
   \<and> merge_prologue_pt (sample_env engine_ok) (config_pt merge_off) installed
       = (Inr (None, None), installed)
   \<and> process_pt (sample_env engine_ok) (config_pt merge_off) installed
       = (Raised (UnboundLocalError ''saida_juncao''), installed)"
proof -
  let ?paths = "YDict [(YStr ''ghostscript'', YStr sample_gs)]"
  let ?juntar = "YDict [(YStr ''ativado'', YBool False),
                        (YStr ''arquivos'', YList [YStr ''a.pdf'']),
                        (YStr ''saida'', YStr ''merged.pdf'')]"
  have h1: "subscript (config_pt merge_off) ''caminhos'' = Inr ?paths"
    by (simp add: config_pt_def merge_off_def one_file_def)
  have h2: "subscript ?paths ''ghostscript'' = Inr (YStr sample_gs)"
    by simp
  have h3: "os_exists (sample_env engine_ok) (world installed)
              (pdfa_def_path (sample_env engine_ok) (world installed) sample_gs)"
    by code_simp
  have h4: "get_method (config_pt merge_off) ''juntar'' (YDict []) = Inr ?juntar"
    by (simp add: config_pt_def merge_off_def one_file_def)
  have h5: "get_method ?juntar ''ativado'' (YBool False) = Inr (YBool False)"
    by simp
  have h6: "\<not> truthy (YBool False)"
    by simp
  from merge_disabled_unbound_pt [OF h1 h2 h3 h4 h5 h6] h1 h3 h4 h6
  show ?thesis by blast
qed

text \<open>Had the merge command been built, the compress stage would have met the third
  unbound local, \<^verbatim>\<open>input_for_next_step\<close>.\<close>

lemma compress_unbound_input_pt:
  assumes "get_method config ''compactar'' (YDict []) = Inr compactar"
      and "get_method compactar ''ativado'' (YBool False) = Inr ativado"
      and "truthy ativado"
  shows "compress_stage_pt env config gs (messages, None) s
           = (Inl (Raised (UnboundLocalError ''input_for_next_step'')), s)"
  using assms by (simp add: compress_stage_pt_def)

section \<open>Runs without a merge stage\<close>

text \<open>
  The English program, after a passed pre-flight check: with every stage disabled it
  ends with an empty list of messages and an untouched state; with only the merge stage
  disabled and the compress stage enabled it ends with the no-input error of the compress
  stage, the engine not invoked.
\<close>

lemma all_disabled_en:
  assumes "subscript config ''paths'' = Inr paths"
      and "subscript paths ''ghostscript'' = Inr (YStr gs)"
      and "os_exists env (world s) (pdfa_def_path env (world s) gs)"
      and "get_method config ''merge'' (YDict []) = Inr m"
      and "get_method m ''enabled'' (YBool False) = Inr me" and "\<not> truthy me"
      and "get_method config ''compress'' (YDict []) = Inr c"
      and "get_method c ''enabled'' (YBool False) = Inr ce" and "\<not> truthy ce"
      and "get_method config ''pdfa'' (YDict []) = Inr p"
      and "get_method p ''enabled'' (YBool False) = Inr pe" and "\<not> truthy pe"
  shows "process_en env config s = (ShowInfo [], s)"
proof -
  have cfg: "truthy config" using assms(1) by (rule subscript_truthy)
  have "merge_stage_en env config gs s = (Inr ([], YNone), s)"
    using assms(4-6) by (simp add: merge_stage_en_def)
  moreover have "compress_stage_en env config gs ([], YNone) s = (Inr ([], YNone), s)"
    using assms(7-9) by (simp add: compress_stage_en_def)
  moreover have "pdfa_stage_en env config gs (pdfa_def_path env (world s) gs) ([], YNone) s
                   = (Inr [], s)"
    using assms(10-12) by (simp add: pdfa_stage_en_def)
  ultimately have "stages_en env config gs (pdfa_def_path env (world s) gs) s = (Inr [], s)"
    by (simp add: stages_en_def)
  with cfg assms(1-3) show ?thesis
    by (simp add: process_en_def as_path_def finish_def Let_def)
qed

lemma compress_without_merge_en:
  assumes "subscript config ''paths'' = Inr paths"
      and "subscript paths ''ghostscript'' = Inr (YStr gs)"
      and "os_exists env (world s) (pdfa_def_path env (world s) gs)"
      and "get_method config ''merge'' (YDict []) = Inr m"
      and "get_method m ''enabled'' (YBool False) = Inr me" and "\<not> truthy me"
      and "get_method config ''compress'' (YDict []) = Inr c"
      and "get_method c ''enabled'' (YBool False) = Inr ce" and "truthy ce"
  shows "process_en env config s
           = (ShowError ''Erro'' (''Nenhum PDF para compress'' @ a_tilde @ ''o.''), s)"
proof -
  have cfg: "truthy config" using assms(1) by (rule subscript_truthy)
  have "merge_stage_en env config gs s = (Inr ([], YNone), s)"
    using assms(4-6) by (simp add: merge_stage_en_def)
  moreover have "compress_stage_en env config gs ([], YNone) s
     = (Inl (ShowError ''Erro'' (''Nenhum PDF para compress'' @ a_tilde @ ''o.'')), s)"
    using assms(7-9) by (simp add: compress_stage_en_def)
  ultimately have "stages_en env config gs (pdfa_def_path env (world s) gs) s
     = (Inl (ShowError ''Erro'' (''Nenhum PDF para compress'' @ a_tilde @ ''o.'')), s)"
    by (simp add: stages_en_def)
  with cfg assms(1-3) show ?thesis
    by (simp add: process_en_def as_path_def finish_def Let_def)
qed

text \<open>
  C4. With all three stages disabled the run is to end normally with an empty list of
  messages and no engine invocation. The English program does so (\<open>all_disabled_en\<close>).
  The localized program, on the same configuration in its keys, installation in place,
  does not end normally: it raises on the unbound \<^verbatim>\<open>saida_juncao\<close>.
\<close>

theorem all_disabled_raises_pt:
  "process_pt (sample_env engine_ok) (config_pt all_disabled) installed
     = (Raised (UnboundLocalError ''saida_juncao''), installed)"
  by code_simp

text \<open>
  C8. With the merge stage disabled and the compress stage enabled the run is to end with
  the no-input error of the compress stage. The English program does so
  (\<open>compress_without_merge_en\<close>). The localized program never reaches its own check of
  \<^verbatim>\<open>input_for_next_step\<close>: it raises on the unbound \<^verbatim>\<open>saida_juncao\<close> before. The
  engine is not invoked.
\<close>

theorem compress_only_raises_pt:
  "process_pt (sample_env engine_ok) (config_pt compress_only) installed
     = (Raised (UnboundLocalError ''saida_juncao''), installed)"
  by code_simp

section \<open>Engine runs of the localized merge stage\<close>

text \<open>
  C2. The end-to-end scenario with a page range, in the localized keys, the engine always
  succeeding: the run hands the engine two commands, the first ending with the two flags
  and \<^verbatim>\<open>a.pdf\<close>, the second with the two flags, \<^verbatim>\<open>a.pdf\<close> and \<^verbatim>\<open>b.pdf\<close>, and it
  shows the merge message twice.
\<close>

theorem scenario_runs_engine_twice_pt:
  "process_pt (sample_env engine_ok) scenario_pt installed
     = (ShowInfo [juncao_ok (sample_env engine_ok) (YStr ''merged.pdf''),
                  juncao_ok (sample_env engine_ok) (YStr ''merged.pdf'')],
        \<lparr>world = world installed,
         calls = [merge_base sample_gs ''merged.pdf'' @
                    [YStr ''-dFirstPage=2'', YStr ''-dLastPage=4'', YStr ''a.pdf''],
                  merge_base sample_gs ''merged.pdf'' @
                    [YStr ''-dFirstPage=2'', YStr ''-dLastPage=4'', YStr ''a.pdf'',
                     YStr ''b.pdf'']]\<rparr>)"
  by code_simp

lemma append_item_None_iff: "append_item env cmd item = None \<longleftrightarrow> skipped item"
  by (cases item) (simp_all add: skipped_def Let_def)

lemma calls_run_gs: "calls (snd (run_gs env cmd s)) = calls s @ [cmd]"
  by (cases "subprocess_run env (world s) cmd" rule: prod.exhaust [case_names Pair])
     (auto simp: run_gs_def split: completed.splits)

lemma upt_0_Suc_shift: "[0..<Suc n] = 0 # map Suc [0..<n]"
  by (simp add: upt_conv_Cons map_Suc_upt del: upt_Suc)

lemma prefix_cmds_Cons:
  "map (\<lambda>k. f (take (Suc k) (x # xs)))
       (filter (\<lambda>k. P ((x # xs) ! k)) [0..<length (x # xs)])
   = (if P x then [f [x]] else [])
     @ map (\<lambda>k. f (x # take (Suc k) xs)) (filter (\<lambda>k. P (xs ! k)) [0..<length xs])"
proof -
  have "[0..<length (x # xs)] = 0 # map Suc [0..<length xs]"
    using upt_0_Suc_shift [of "length xs"] by simp
  then show ?thesis
    by (simp add: filter_map o_def)
qed

text \<open>
  C6, as the code has it. In the localized program, whenever the merge loop ends
  normally (no engine run has failed), the engine has been invoked once for every item
  that is not a dictionary without a path, in order, each time with the command built up
  to and including that item, and one merge message has been appended for each such
  item. Items that are dictionaries without a path are passed over: no engine run and no
  message for them.
\<close>

theorem merge_loop_runs_engine_per_item:
  assumes "merge_loop_pt env saida items (cmd0, m0, i0) s = (Inr (cmd, m, i), s')"
  shows "calls s' = calls s @
           map (\<lambda>k. build_merge_cmd env cmd0 (take (Suc k) items))
               (filter (\<lambda>k. \<not> skipped (items ! k)) [0..<length items])
       \<and> m = m0 @ replicate (length (filter (\<lambda>item. \<not> skipped item) items))
                             (juncao_ok env saida)"
  using assms
proof (induction items arbitrary: cmd0 m0 i0 s)
  case Nil
  then show ?case by simp
next
  case (Cons item items)
  from merge_loop_pt_step [OF Cons.prems] show ?case
  proof (elim disjE conjE exE)
    assume none: "append_item env cmd0 item = None"
      and rest: "merge_loop_pt env saida items (cmd0, m0, i0) s = (Inr (cmd, m, i), s')"
    from none have sk: "skipped item" by (simp add: append_item_None_iff)
    from Cons.IH [OF rest] sk none show ?thesis
      unfolding prefix_cmds_Cons [of "build_merge_cmd env cmd0" item items "\<lambda>it. \<not> skipped it"]
      by simp
  next
    fix cmd1
    assume some: "append_item env cmd0 item = Some cmd1"
      and rest: "merge_loop_pt env saida items
              (cmd1, m0 @ [juncao_ok env saida], Some saida) (snd (run_gs env cmd1 s))
              = (Inr (cmd, m, i), s')"
    from some have sk: "\<not> skipped item"
      using append_item_None_iff [of env cmd0 item] by simp
    from Cons.IH [OF rest] sk some show ?thesis
      unfolding prefix_cmds_Cons [of "build_merge_cmd env cmd0" item items "\<lambda>it. \<not> skipped it"]
      by (simp add: calls_run_gs replicate_app_Cons_same)
  qed
qed

theorem merge_loop_runs_engine_per_item_witness:
  "merge_loop_pt (sample_env engine_ok) (YStr ''merged.pdf'')
     [YStr ''a.pdf'', YDict [(YStr ''pagina_inicial'', YInt 2)], YStr ''b.pdf'']
     (merge_base sample_gs ''merged.pdf'', [], None) installed
   = (Inr (merge_base sample_gs ''merged.pdf'' @ [YStr ''a.pdf'', YStr ''b.pdf''],
           [juncao_ok (sample_env engine_ok) (YStr ''merged.pdf''),
            juncao_ok (sample_env engine_ok) (YStr ''merged.pdf'')],
           Some (YStr ''merged.pdf'')),
      \<lparr>world = world installed,
       calls = [merge_base sample_gs ''merged.pdf'' @ [YStr ''a.pdf''],
                merge_base sample_gs ''merged.pdf'' @ [YStr ''a.pdf'', YStr ''b.pdf'']]\<rparr>)
   \<and> calls \<lparr>world = world installed,
       calls = [merge_base sample_gs ''merged.pdf'' @ [YStr ''a.pdf''],
                merge_base sample_gs ''merged.pdf'' @ [YStr ''a.pdf'', YStr ''b.pdf'']]\<rparr>
     = calls installed @
         map (\<lambda>k. build_merge_cmd (sample_env engine_ok) (merge_base sample_gs ''merged.pdf'')
                    (take (Suc k)
                       [YStr ''a.pdf'', YDict [(YStr ''pagina_inicial'', YInt 2)],
                        YStr ''b.pdf'']))
             [0, 2]"
proof -
  let ?items = "[YStr ''a.pdf'', YDict [(YStr ''pagina_inicial'', YInt 2)], YStr ''b.pdf'']"
  have run: "merge_loop_pt (sample_env engine_ok) (YStr ''merged.pdf'') ?items
     (merge_base sample_gs ''merged.pdf'', [], None) installed
   = (Inr (merge_base sample_gs ''merged.pdf'' @ [YStr ''a.pdf'', YStr ''b.pdf''],
           [juncao_ok (sample_env engine_ok) (YStr ''merged.pdf''),
            juncao_ok (sample_env engine_ok) (YStr ''merged.pdf'')],
           Some (YStr ''merged.pdf'')),
      \<lparr>world = world installed,
       calls = [merge_base sample_gs ''merged.pdf'' @ [YStr ''a.pdf''],
                merge_base sample_gs ''merged.pdf'' @ [YStr ''a.pdf'', YStr ''b.pdf'']]\<rparr>)"
    by code_simp
  have idx: "filter (\<lambda>k. \<not> skipped (?items ! k)) [0..<length ?items] = [0, 2]"
    by code_simp
  from merge_loop_runs_engine_per_item [OF run] run show ?thesis
    unfolding idx by blast
qed

text \<open>
  C6, as stated, fails on a merge list whose only item is a dictionary without a path:
  the list has one item, the run ends normally, and the engine has not been invoked nor
  a message appended.
\<close>

theorem pathless_item_not_run:
  "process_pt (sample_env engine_ok) pathless_pt installed
     = (ShowInfo [], \<lparr>world = world installed, calls = []\<rparr>)"
  by code_simp

section \<open>The archive profile\<close>

lemma with_profile_truthy: "truthy (with_profile key p config) = truthy config"
  by (cases config)
     (auto simp: with_profile_def split: option.splits yval.splits)

lemma with_profile_subscript:
  "k \<noteq> ''pdfa'' \<Longrightarrow> subscript (with_profile key p config) k = subscript config k"
  by (cases config)
     (simp_all add: with_profile_def AList.update_conv' split: option.splits yval.splits)

lemma with_profile_get:
  "k \<noteq> ''pdfa'' \<Longrightarrow> get_method (with_profile key p config) k dflt = get_method config k dflt"
  by (cases config)
     (simp_all add: with_profile_def AList.update_conv' split: option.splits yval.splits)

lemma with_profile_section:
  assumes "config = YDict d" and "map_of d (YStr ''pdfa'') = Some (YDict sect)"
  shows "subscript (with_profile key p config) ''pdfa''
           = Inr (YDict (AList.update (YStr key) p sect))"
    and "get_method (with_profile key p config) ''pdfa'' dflt
           = Inr (YDict (AList.update (YStr key) p sect))"
  using assms by (simp_all add: with_profile_def AList.update_conv')

lemma with_profile_other:
  assumes "\<nexists>d sect. config = YDict d \<and> map_of d (YStr ''pdfa'') = Some (YDict sect)"
  shows "with_profile key p config = config"
  using assms by (cases config) (auto simp: with_profile_def split: option.splits yval.splits)

lemma merge_stage_en_profile:
  "merge_stage_en env (with_profile key p config) gs s = merge_stage_en env config gs s"
  by (simp add: merge_stage_en_def with_profile_get with_profile_subscript cong: if_cong)

lemma compress_stage_en_profile:
  "compress_stage_en env (with_profile key p config) gs loc s
     = compress_stage_en env config gs loc s"
  by (simp add: compress_stage_en_def with_profile_get with_profile_subscript cong: if_cong)

lemma merge_stage_pt_profile:
  "merge_stage_pt env (with_profile key p config) gs s = merge_stage_pt env config gs s"
  by (simp add: merge_stage_pt_def merge_prologue_pt_def with_profile_get with_profile_subscript
        cong: if_cong)

lemma compress_stage_pt_profile:
  "compress_stage_pt env (with_profile key p config) gs loc s
     = compress_stage_pt env config gs loc s"
  by (simp add: compress_stage_pt_def with_profile_get with_profile_subscript cong: if_cong
              option.case_cong)

lemma pdfa_stage_en_profile:
  "pdfa_stage_en env (with_profile ''profile'' p config) gs pdfa_def loc s
     = pdfa_stage_en env (with_profile ''profile'' q config) gs pdfa_def loc s"
proof (cases "\<exists>d sect. config = YDict d \<and> map_of d (YStr ''pdfa'') = Some (YDict sect)")
  case True
  then obtain d sect where c: "config = YDict d" "map_of d (YStr ''pdfa'') = Some (YDict sect)"
    by blast
  show ?thesis
    by (simp add: pdfa_stage_en_def with_profile_section [OF c] AList.update_conv'
             cong: if_cong)
next
  case False
  then show ?thesis by (simp add: with_profile_other)
qed

lemma pdfa_stage_pt_profile:
  "pdfa_stage_pt env (with_profile ''perfil'' p config) gs pdfa_def loc s
     = pdfa_stage_pt env (with_profile ''perfil'' q config) gs pdfa_def loc s"
proof (cases "\<exists>d sect. config = YDict d \<and> map_of d (YStr ''pdfa'') = Some (YDict sect)")
  case True
  then obtain d sect where c: "config = YDict d" "map_of d (YStr ''pdfa'') = Some (YDict sect)"
    by blast
  show ?thesis
    by (simp add: pdfa_stage_pt_def with_profile_section [OF c] AList.update_conv'
             cong: if_cong option.case_cong)
next
  case False
  then show ?thesis by (simp add: with_profile_other)
qed

text \<open>
  C10. In both programs the profile entry of the \<^verbatim>\<open>pdfa\<close> section never reaches the
  engine: two configurations that differ only in that entry give the same run, with the
  same outcome, the same world and the same argument vectors handed to the engine, that
  of the archive stage among them. (The entry is read and written to the log only.)
\<close>

theorem profile_does_not_reach_engine:
  "process_en env (with_profile ''profile'' p config) s
     = process_en env (with_profile ''profile'' q config) s
   \<and> process_pt env (with_profile ''perfil'' p config) s
     = process_pt env (with_profile ''perfil'' q config) s"
proof
  have "stages_en env (with_profile ''profile'' p config) gs pdfa_def s
          = stages_en env (with_profile ''profile'' q config) gs pdfa_def s" for gs pdfa_def
    by (simp add: stages_en_def merge_stage_en_profile compress_stage_en_profile
                  pdfa_stage_en_profile [of env p config _ _ _ _ q]
             split: prod.split sum.split)
  then show "process_en env (with_profile ''profile'' p config) s
     = process_en env (with_profile ''profile'' q config) s"
    by (simp add: process_en_def with_profile_truthy with_profile_subscript cong: if_cong)
next
  have "stages_pt env (with_profile ''perfil'' p config) gs pdfa_def s
          = stages_pt env (with_profile ''perfil'' q config) gs pdfa_def s" for gs pdfa_def
    by (simp add: stages_pt_def merge_stage_pt_profile compress_stage_pt_profile
                  pdfa_stage_pt_profile [of env p config _ _ _ _ q]
             split: prod.split sum.split)
  then show "process_pt env (with_profile ''perfil'' p config) s
     = process_pt env (with_profile ''perfil'' q config) s"
    by (simp add: process_pt_def with_profile_truthy with_profile_subscript cong: if_cong)
qed

section \<open>The two key-naming schemes\<close>

lemma localize_msg_merge:
  "localize_msg (''Merge OK '' @ rest) = ''Jun'' @ c_cedilla @ a_tilde @ ''o OK '' @ rest"
  by (simp add: localize_msg_def)

lemma localize_msg_compress:
  "localize_msg (''Compress'' @ a_tilde @ rest) = ''Compress'' @ a_tilde @ rest"
  by (simp add: localize_msg_def a_tilde_def)

lemma localize_msg_pdfa:
  "localize_msg (''PDF/A OK '' @ rest) = ''PDF/A OK '' @ rest"
  by (simp add: localize_msg_def)

lemma merge_stage_agree:
  assumes "merge_enabled c" and "merge_inputs c = [f]"
  shows "merge_stage_pt env (config_pt c) gs s
     = (case merge_stage_en env (config_en c) gs s of
          (Inl stop, s1) \<Rightarrow> (Inl (localize stop), s1)
        | (Inr (messages, inp), s1) \<Rightarrow> (Inr (map localize_msg messages, Some inp), s1))"
proof (cases "run_gs env (merge_base gs (merge_output c) @ [YStr f]) s")
  case (Pair okerr s1)
  obtain ok err where oe: "okerr = (ok, err)" by (cases okerr)
  have m: "localize_msg (''Merge OK '' @ arrow @ '' '' @ merge_output c)
      = juncao_ok env (YStr (merge_output c))"
    using localize_msg_merge [of "arrow @ '' '' @ merge_output c"]
    by (simp add: juncao_ok_def py_str_def)
  show ?thesis
    using assms Pair oe m
    by (cases ok)
       (simp_all add: merge_stage_pt_def merge_prologue_pt_def merge_stage_en_def
          config_pt_def config_en_def py_iter_def py_str_def localize_def)
qed

lemma compress_stage_agree:
  "compress_stage_pt env (config_pt c) gs (map localize_msg messages, Some inp) s
     = (case compress_stage_en env (config_en c) gs (messages, inp) s of
          (Inl stop, s1) \<Rightarrow> (Inl (localize stop), s1)
        | (Inr (messages', inp'), s1) \<Rightarrow> (Inr (map localize_msg messages', Some inp'), s1))"
proof (cases "run_gs env (compress_cmd gs (compressionLevel c) (compress_output c) inp) s")
  case (Pair okerr s1)
  obtain ok err where oe: "okerr = (ok, err)" by (cases okerr)
  have m: "localize_msg (''Compress'' @ a_tilde @ ''o OK '' @ arrow @ '' '' @ compress_output c)
      = ''Compress'' @ a_tilde @ ''o OK '' @ arrow @ '' '' @ compress_output c"
    by (rule localize_msg_compress)
  show ?thesis
    using Pair oe m
    by (cases ok)
       (simp_all add: compress_stage_pt_def compress_stage_en_def
          config_pt_def config_en_def py_str_def localize_def a_tilde_def c_cedilla_def)
qed

lemma pdfa_stage_agree:
  "pdfa_stage_pt env (config_pt c) gs pdfa_def (map localize_msg messages, Some inp) s
     = (case pdfa_stage_en env (config_en c) gs pdfa_def (messages, inp) s of
          (Inl stop, s1) \<Rightarrow> (Inl (localize stop), s1)
        | (Inr messages', s1) \<Rightarrow> (Inr (map localize_msg messages'), s1))"
proof (cases "run_gs env (pdfa_cmd gs (archive_output c) pdfa_def inp) s")
  case (Pair okerr s1)
  obtain ok err where oe: "okerr = (ok, err)" by (cases okerr)
  have m: "localize_msg (''PDF/A OK '' @ arrow @ '' '' @ archive_output c)
      = ''PDF/A OK '' @ arrow @ '' '' @ archive_output c"
    by (rule localize_msg_pdfa)
  show ?thesis
    using Pair oe m
    by (cases ok)
       (simp_all add: pdfa_stage_pt_def pdfa_stage_en_def
          config_pt_def config_en_def py_str_def localize_def)
qed

lemma stages_agree:
  assumes "merge_enabled c" and "merge_inputs c = [f]"
  shows "stages_pt env (config_pt c) gs pdfa_def s
     = (case stages_en env (config_en c) gs pdfa_def s of
          (Inl stop, s1) \<Rightarrow> (Inl (localize stop), s1)
        | (Inr messages, s1) \<Rightarrow> (Inr (map localize_msg messages), s1))"
  by (simp add: stages_pt_def stages_en_def merge_stage_agree [OF assms]
        compress_stage_agree pdfa_stage_agree
      split: prod.split sum.split)

text \<open>
  C3, as the code has it. For every configuration that both schemes can write and whose
  merge stage is enabled with exactly one configured bare path, the localized program
  hands the engine the same argument vectors in the same order as the English program,
  leaves the same world, and ends in the same outcome up to the wording: the merge
  message and the dialog titles and texts that the two programs word differently. (What
  the localized program does with a disabled merge stage or with several inputs is left
  out here.)
\<close>

theorem schemes_agree_on_one_input:
  assumes "merge_enabled c" and "merge_inputs c = [f]"
  shows "process_pt env (config_pt c) s
     = (localize (fst (process_en env (config_en c) s)), snd (process_en env (config_en c) s))"
proof -
  have cfg: "truthy (config_pt c)" "truthy (config_en c)"
    by (simp_all add: config_pt_def config_en_def)
  have gs: "subscript (config_pt c) ''caminhos'' = Inr (YDict [(YStr ''ghostscript'', YStr (enginePath c))])"
    "subscript (config_en c) ''paths'' = Inr (YDict [(YStr ''ghostscript'', YStr (enginePath c))])"
    by (simp_all add: config_pt_def config_en_def)
  have nf: "localize (ShowError ''Erro'' (not_found_msg p)) = ShowError ''Erro'' (not_found_msg p)" for p
    by (simp add: localize_def not_found_msg_def)
  show ?thesis
    by (simp add: process_pt_def process_en_def cfg gs as_path_def finish_def Let_def nf
          stages_agree [OF assms] localize_def [of "ShowInfo _"]
        split: prod.split sum.split)
qed

theorem schemes_agree_on_one_input_witness:
  "merge_enabled one_file \<and> merge_inputs one_file = [''a.pdf'']
   \<and> process_pt (sample_env engine_ok) (config_pt one_file) installed
       = (localize (fst (process_en (sample_env engine_ok) (config_en one_file) installed)),
          snd (process_en (sample_env engine_ok) (config_en one_file) installed))"
proof -
  have h1: "merge_enabled one_file" by (simp add: one_file_def)
  have h2: "merge_inputs one_file = [''a.pdf'']" by (simp add: one_file_def)
  from schemes_agree_on_one_input [OF h1 h2] h1 h2 show ?thesis by blast
qed

text \<open>
  C3, as stated, fails already on a configuration with one file to merge and an engine
  that always succeeds: the two programs do not end in the same outcome, since the
  localized one words its merge message differently.
\<close>

theorem schemes_differ_in_wording:
  "process_pt (sample_env engine_ok) (config_pt one_file) installed
     \<noteq> process_en (sample_env engine_ok) (config_en one_file) installed"
  by code_simp

end
